theory Spec2Isabelle
  imports Complex_Main "HOL-Library.Sublist"
begin

section \<open>Shared data: exceptions and decimal formatting\<close>

text \<open>
  Python strings are modelled as \<open>string\<close>: a list of characters, one per code point, over the
  8-bit range that \<open>char\<close> offers. A Python exception caught by \<open>except Exception\<close> is a value
  \<open>Exception m\<close>, where \<open>m\<close> is the text that \<open>str(e)\<close> yields. An operation that may raise
  returns \<open>error + 'a\<close>, with \<open>Inl\<close> for the raised exception.
\<close>

datatype error = Exception string

fun str_of_error :: "error \<Rightarrow> string" where
  "str_of_error (Exception m) = m"

text \<open>\<open>str(n)\<close> for a non-negative and for an arbitrary Python integer.\<close>

definition digit_char :: "nat \<Rightarrow> char" where
  "digit_char d = ''0123456789'' ! d"

function str_nat :: "nat \<Rightarrow> string" where
  "str_nat n = (if n < 10 then [digit_char n] else str_nat (n div 10) @ [digit_char (n mod 10)])"
  by pat_completeness auto
termination
  by (relation "measure id") auto

declare str_nat.simps [simp del]

definition str_int :: "int \<Rightarrow> string" where
  "str_int i = (if i < 0 then ''-'' @ str_nat (nat (- i)) else str_nat (nat i))"

section \<open>index-docs.py: the resilient embedder\<close>

text \<open>
  An embedding vector is a list of floats; the code only ever builds the constant \<open>0.0\<close> itself,
  so the entries are modelled as reals.

  \<open>self.client.embeddings.create(model=..., input=...)\<close> is the opaque provider. It is a
  parameter of the model: a function of the model name, the list of input texts and the
  provider's own state, which returns either the raised exception or the embeddings of
  \<open>resp.data\<close> in response order, together with the provider's next state.

  The world threaded through \<open>embed\<close> holds the provider state, the record of every request
  issued with its outcome (model, input, response), and the lines printed.
\<close>

type_synonym vector = "real list"

type_synonym 's client = "string \<Rightarrow> string list \<Rightarrow> 's \<Rightarrow> (error + vector list) \<times> 's"

record call =
  call_model :: string
  call_input :: "string list"
  call_response :: "error + vector list"

record 's world =
  provider :: 's
  calls :: "call list"
  printed :: "string list"

definition create :: "'s client \<Rightarrow> string \<Rightarrow> string list \<Rightarrow> 's world
    \<Rightarrow> (error + vector list) \<times> 's world" where
  "create cl model inp w =
     (case cl model inp (provider w) of
        (r, s') \<Rightarrow> (r, w\<lparr>provider := s', calls := calls w @ [\<lparr>call_model = model, call_input = inp, call_response = r\<rparr>]\<rparr>))"

definition print :: "string \<Rightarrow> 's world \<Rightarrow> 's world" where
  "print line w = w\<lparr>printed := printed w @ [line]\<rparr>"

definition MAX_CHARS :: nat where
  "MAX_CHARS = 6000"

text \<open>\<open>t[:self.MAX_CHARS] if t else t\<close>\<close>

definition truncate_text :: "string \<Rightarrow> string" where
  "truncate_text t = (if t \<noteq> [] then take MAX_CHARS t else t)"

definition truncated :: "string list \<Rightarrow> string list" where
  "truncated texts = map truncate_text texts"

text \<open>\<open>[0.0] * 768\<close>\<close>

definition zero_vector :: vector where
  "zero_vector = replicate 768 0"

text \<open>
  The per-item loop of the fallback. \<open>r.data[0]\<close> on an empty \<open>data\<close> raises \<open>IndexError\<close>
  inside the inner \<open>try\<close>, so it is caught there like a failed request.
\<close>

definition single_failed :: "error \<Rightarrow> string" where
  "single_failed inner = ''  [embed] Single embed failed, using zero vector: '' @ str_of_error inner"

fun embed_individually :: "'s client \<Rightarrow> string \<Rightarrow> string list \<Rightarrow> vector list \<Rightarrow> 's world
    \<Rightarrow> vector list \<times> 's world" where
  "embed_individually cl model [] result w = (result, w)"
| "embed_individually cl model (text # rest) result w =
     (case create cl model [text] w of
        (Inr data, w') \<Rightarrow>
          (case data of
             item # _ \<Rightarrow> embed_individually cl model rest (result @ [item]) w'
           | [] \<Rightarrow> embed_individually cl model rest (result @ [zero_vector])
                    (print (single_failed (Exception ''list index out of range'')) w'))
      | (Inl inner, w') \<Rightarrow>
          embed_individually cl model rest (result @ [zero_vector])
            (print (single_failed inner) w'))"

definition batch_failed :: "nat \<Rightarrow> error \<Rightarrow> string" where
  "batch_failed n e =
     ''  [embed] Batch of '' @ str_nat n @ '' failed ('' @ str_of_error e
       @ ''), retrying individually''"

text \<open>\<open>OllamaEmbedder.embed\<close>, with \<open>self.client\<close> and \<open>self.model\<close> as its first two arguments.\<close>

definition embed :: "'s client \<Rightarrow> string \<Rightarrow> string list \<Rightarrow> 's world
    \<Rightarrow> (error + vector list) \<times> 's world" where
  "embed cl model texts w =
     (case create cl model (truncated texts) w of
        (Inr data, w') \<Rightarrow> (Inr data, w')
      | (Inl e, w') \<Rightarrow>
          if length (truncated texts) = 1 then (Inl e, w')
          else (case embed_individually cl model (truncated texts) []
                       (print (batch_failed (length (truncated texts)) e) w') of
                  (result, w'') \<Rightarrow> (Inr result, w'')))"

text \<open>
  The vector the fallback derives from the outcome of one single-item request: the first
  embedding of the response, or the zero vector when the request raised or returned no data.
\<close>

definition attempt_vector :: "(error + vector list) \<Rightarrow> vector" where
  "attempt_vector r = (case r of Inr (item # _) \<Rightarrow> item | _ \<Rightarrow> zero_vector)"

section \<open>index-docs.py: backend selection and the batch pipeline of \<open>main\<close>\<close>

text \<open>
  The parsed command line (\<open>argparse\<close> is not modelled): one field per option, with Python's
  unbounded \<open>int\<close> for \<open>--port\<close> and \<open>--batch-size\<close>.
\<close>

record args =
  dir :: string
  session_id :: string
  host :: string
  port :: int
  batch_size :: int
  ollama_url :: string
  extractor_model :: string
  embedder_model :: string
  openai :: bool
  openai_embed :: bool




text \<open>
  The extractor and embedder objects handed to the engine, as the constructor calls that
  build them: \<open>OpenAIExtractor(model, api_key, base_url)\<close> and \<open>OllamaExtractor(model, base_url)\<close>,
  and the same for embedders. Constructing them opens no connection.
\<close>

datatype extractor =
    OpenAIExtractor string "string option" "string option"
  | OllamaExtractor string string

datatype embedder =
    OpenAIEmbedder string "string option" "string option"
  | OllamaEmbedder string string

record indexer =
  ix_session_id :: string
  ix_host :: string
  ix_port :: int
  ix_extractor :: extractor
  ix_embedder :: embedder


record stats =
  entities_extracted :: int
  relationships_extracted :: int

record entity =
  title :: string
  score :: real
  description :: "string option"



datatype event =
    Stdout string
  | Stderr string
  | IndexDocuments indexer "string list" "error + stats"
  | Query indexer string int "error + entity list"

text \<open>
  What the file system shows for the directory argument: the resolved path as text, whether
  it exists, and \<open>sorted(docs_dir.rglob("*.md"))\<close>, each file with its \<open>name\<close> and with what
  \<open>read_text(encoding="utf-8")\<close> gives for it (the content, or the exception raised).
\<close>

record md_file =
  name :: string
  read_text :: "error + string"

record directory =
  resolved :: string
  dir_exists :: bool
  rglob_md :: "md_file list"


text \<open>Lines 112 to 123 of \<open>main\<close>: the extractor, the embedder and the label of the backend.\<close>

definition select_backend :: "args \<Rightarrow> string option \<Rightarrow> extractor \<times> embedder \<times> string" where
  "select_backend a api_key =
     (if openai a then
        (OpenAIExtractor ''gpt-4o'' api_key None,
         OpenAIEmbedder ''text-embedding-3-small'' api_key None,
         ''OpenAI (gpt-4o + text-embedding-3-small)'')
      else if openai_embed a then
        (OllamaExtractor (extractor_model a) (ollama_url a),
         OpenAIEmbedder ''text-embedding-3-small'' api_key None,
         ''Hybrid (Ollama '' @ extractor_model a @ '' + OpenAI text-embedding-3-small)'')
      else
        (OllamaExtractor (extractor_model a) (ollama_url a),
         OllamaEmbedder (embedder_model a) (ollama_url a),
         ''Ollama ('' @ extractor_model a @ '' / '' @ embedder_model a @ '')''))"





text \<open>
  \<open>main\<close>, from the resolved directory on. \<open>sys.exit(k)\<close> is \<open>Exit k\<close>, falling off the end of
  the script is \<open>Exit 0\<close>, an exception nobody catches is \<open>Uncaught\<close>. The arrow of the session
  line is outside the 8-bit range and appears as its three UTF-8 bytes.
\<close>

definition found_line :: "nat \<Rightarrow> string \<Rightarrow> string" where
  "found_line n d = ''Found '' @ str_nat n @ '' markdown files in '' @ d"

definition session_line :: "args \<Rightarrow> string" where
  "session_line a =
     ''Session:  '' @ session_id a @ '' '' @ [CHR 0xE2, CHR 0x86, CHR 0x92] @ '' ''
       @ host a @ '':'' @ str_int (port a)"

definition summary_lines :: "int \<Rightarrow> int \<Rightarrow> string \<Rightarrow> event list" where
  "summary_lines te tr sid =
     [Stdout (CHR 0x0A # ''Done.''),
      Stdout (''  Total entities:      '' @ str_int te),
      Stdout (''  Total relationships: '' @ str_int tr),
      Stdout (''  Session ID:          '' @ sid)]"


text \<open>Reading a trace: the batches handed to the engine, and the statistics it returned.\<close>

fun engine_batches :: "event list \<Rightarrow> string list list" where
  "engine_batches [] = []"
| "engine_batches (IndexDocuments ix b r # es) = b # engine_batches es"
| "engine_batches (e # es) = engine_batches es"

fun engine_stats :: "event list \<Rightarrow> stats list" where
  "engine_stats [] = []"
| "engine_stats (IndexDocuments ix b (Inr s) # es) = s # engine_stats es"
| "engine_stats (e # es) = engine_stats es"


section \<open>mcp-server.py: the tool facade\<close>


















section \<open>Auxiliary definitions for the statements\<close>

text \<open>
  Concrete worlds and providers for the examples. \<open>flaky_client\<close> rejects every request of
  several texts and the text \<open>bad\<close>; \<open>echo_client\<close> answers every request with one vector per
  text; \<open>wide_client\<close> answers the single text \<open>b\<close> with a vector of 1024 entries and rejects
  everything else.
\<close>

definition fresh_world :: "unit world" where
  "fresh_world = \<lparr>provider = (), calls = [], printed = []\<rparr>"

definition flaky_client :: "unit client" where
  "flaky_client model inp s =
     (if length inp = 1 \<and> inp \<noteq> [''bad''] then (Inr [[1, 2]], s)
      else (Inl (Exception ''context length exceeded''), s))"

definition echo_client :: "unit client" where
  "echo_client model inp s = (Inr (map (\<lambda>t. [real (length t)]) inp), s)"

definition wide_client :: "unit client" where
  "wide_client model inp s =
     (if inp = [''b''] then (Inr [replicate 1024 1], s)
      else (Inl (Exception ''context length exceeded''), s))"






definition cli_banner :: "args \<Rightarrow> (string \<rightharpoonup> string) \<Rightarrow> directory \<Rightarrow> event list" where
  "cli_banner a env d =
     (case select_backend a
             (if openai a \<or> openai_embed a then env ''OPENAI_API_KEY'' else None) of
        (ex, em, backend) \<Rightarrow>
          [Stdout (found_line (length (rglob_md d)) (resolved d)),
           Stdout (session_line a),
           Stdout (''Backend:  '' @ backend @ [CHR 0x0A])])"






text \<open>
  The queries a trace made to the engine.
\<close>

fun engine_queries :: "event list \<Rightarrow> (indexer \<times> string \<times> int) list" where
  "engine_queries [] = []"
| "engine_queries (Query ix q k r # es) = (ix, q, k) # engine_queries es"
| "engine_queries (e # es) = engine_queries es"






section \<open>Proofs\<close>

subsection \<open>The resilient embedder\<close>

text \<open>
  Each request appends exactly one entry to the record of calls and prints nothing.
\<close>

lemma create_eq:
  "create cl m inp w = (r, w') \<longleftrightarrow>
     r = fst (cl m inp (provider w)) \<and>
     w' = w\<lparr>provider := snd (cl m inp (provider w)),
            calls := calls w @ [\<lparr>call_model = m, call_input = inp, call_response = r\<rparr>]\<rparr>"
  by (auto simp: create_def split: prod.splits)

lemma calls_print [simp]: "calls (print l w) = calls w"
  by (simp add: print_def)

lemma create_calls:
  "create cl m inp w = (r, w') \<Longrightarrow>
     calls w' = calls w @ [\<lparr>call_model = m, call_input = inp, call_response = r\<rparr>]"
  by (simp add: create_eq)

lemma attempt_vector_simps [simp]:
  "attempt_vector (Inl e) = zero_vector"
  "attempt_vector (Inr []) = zero_vector"
  "attempt_vector (Inr (v # vs)) = v"
  by (simp_all add: attempt_vector_def)

text \<open>
  The fallback loop issues one single-item request per text, in order, and appends for each
  the vector derived from its outcome.
\<close>

lemma embed_individually_trace:
  "embed_individually cl m ts res w = (vs, w') \<Longrightarrow>
     \<exists>cs. calls w' = calls w @ cs
        \<and> map call_input cs = map (\<lambda>t. [t]) ts
        \<and> (\<forall>c \<in> set cs. call_model c = m)
        \<and> vs = res @ map (\<lambda>c. attempt_vector (call_response c)) cs"
proof (induction ts arbitrary: res w)
  case Nil
  then show ?case by simp
next
  case (Cons t ts)
  obtain r w1 where c: "create cl m [t] w = (r, w1)" by (cases "create cl m [t] w")
  note lg = create_calls [OF c]
  define w2 where "w2 = (case r of Inr (item # _) \<Rightarrow> w1
                         | Inr [] \<Rightarrow> print (single_failed (Exception ''list index out of range'')) w1
                         | Inl inner \<Rightarrow> print (single_failed inner) w1)"
  have w2: "calls w2 = calls w1"
    by (simp add: w2_def split: sum.splits list.splits)
  have step: "embed_individually cl m (t # ts) res w
                = embed_individually cl m ts (res @ [attempt_vector r]) w2"
    using c by (simp add: w2_def split: sum.splits list.splits)
  with Cons.prems have "embed_individually cl m ts (res @ [attempt_vector r]) w2 = (vs, w')"
    by simp
  from Cons.IH [OF this] obtain cs where
    cs: "calls w' = calls w2 @ cs" "map call_input cs = map (\<lambda>t. [t]) ts"
        "\<forall>c \<in> set cs. call_model c = m"
        "vs = (res @ [attempt_vector r]) @ map (\<lambda>c. attempt_vector (call_response c)) cs"
    by blast
  let ?c = "\<lparr>call_model = m, call_input = [t], call_response = r\<rparr>"
  show ?case
    by (rule exI [of _ "?c # cs"]) (use cs w2 lg in simp)
qed

lemma length_truncated [simp]: "length (truncated texts) = length texts"
  by (simp add: truncated_def)

lemma embed_batch_ok:
  assumes "fst (cl m (truncated texts) (provider w)) = Inr d"
  shows "embed cl m texts w =
           (Inr d, w\<lparr>provider := snd (cl m (truncated texts) (provider w)),
                     calls := calls w @ [\<lparr>call_model = m, call_input = truncated texts,
                                           call_response = Inr d\<rparr>]\<rparr>)"
  using assms by (cases "cl m (truncated texts) (provider w)") (simp add: embed_def create_def)

lemma embed_single_fail:
  assumes "fst (cl m (truncated texts) (provider w)) = Inl e" and "length texts = 1"
  shows "embed cl m texts w =
           (Inl e, w\<lparr>provider := snd (cl m (truncated texts) (provider w)),
                     calls := calls w @ [\<lparr>call_model = m, call_input = truncated texts,
                                           call_response = Inl e\<rparr>]\<rparr>)"
  using assms by (cases "cl m (truncated texts) (provider w)") (simp add: embed_def create_def)

lemma embed_fallback:
  assumes "fst (cl m (truncated texts) (provider w)) = Inl e" and "length texts \<noteq> 1"
  shows "\<exists>vs w' singles.
           embed cl m texts w = (Inr vs, w')
         \<and> calls w' = calls w @ \<lparr>call_model = m, call_input = truncated texts,
                                  call_response = Inl e\<rparr> # singles
         \<and> map call_input singles = map (\<lambda>t. [t]) (truncated texts)
         \<and> (\<forall>c \<in> set singles. call_model c = m)
         \<and> vs = map (\<lambda>c. attempt_vector (call_response c)) singles"
proof -
  obtain w1 where c: "create cl m (truncated texts) w = (Inl e, w1)"
    using assms(1) by (cases "cl m (truncated texts) (provider w)") (simp add: create_def)
  let ?w2 = "print (batch_failed (length (truncated texts)) e) w1"
  obtain vs w' where l: "embed_individually cl m (truncated texts) [] ?w2 = (vs, w')"
    by (cases "embed_individually cl m (truncated texts) [] ?w2")
  have e: "embed cl m texts w = (Inr vs, w')"
    using c l assms(2) by (simp add: embed_def)
  from embed_individually_trace [OF l] obtain cs where
    cs: "calls w' = calls ?w2 @ cs" "map call_input cs = map (\<lambda>t. [t]) (truncated texts)"
        "\<forall>c \<in> set cs. call_model c = m"
        "vs = [] @ map (\<lambda>c. attempt_vector (call_response c)) cs"
    by blast
  from create_calls [OF c] cs e show ?thesis by auto
qed

text \<open>
  Claim C1, as the code has it. When the batch request fails and the list does not hold
  exactly one text (so in particular when it holds more than one), \<open>embed\<close> returns a list and
  does not raise. After the failed batch request it issues one request per truncated text, in
  the original order, each with that single text. The result holds, position by position, the
  first embedding of the response, or, where the request raised or answered with no data, the
  zero vector of 768 entries. The number 768 is a constant of the code (the dimensionality of
  nomic-embed-text, the default model); it does not depend on the model \<open>m\<close> of the embedder.
\<close>

theorem embed_fallback_zero_768:
  assumes "fst (cl m (truncated texts) (provider w)) = Inl e" and "length texts \<noteq> 1"
  shows "\<exists>vs w' singles.
           embed cl m texts w = (Inr vs, w')
         \<and> calls w' = calls w @ \<lparr>call_model = m, call_input = truncated texts,
                                  call_response = Inl e\<rparr> # singles
         \<and> map call_input singles = map (\<lambda>t. [t]) (truncated texts)
         \<and> vs = map (\<lambda>c. case call_response c of Inr (item # _) \<Rightarrow> item
                                                   | _ \<Rightarrow> replicate 768 0) singles
         \<and> length vs = length texts"
proof -
  from embed_fallback [of cl m texts w e] assms obtain vs w' singles where
    h: "embed cl m texts w = (Inr vs, w')"
       "calls w' = calls w @ \<lparr>call_model = m, call_input = truncated texts,
                                call_response = Inl e\<rparr> # singles"
       "map call_input singles = map (\<lambda>t. [t]) (truncated texts)"
       "vs = map (\<lambda>c. attempt_vector (call_response c)) singles"
    by blast
  have "length singles = length texts"
    using h(3) by (metis length_map length_truncated)
  with h show ?thesis
    by (auto simp: attempt_vector_def zero_vector_def split: sum.splits list.splits)
qed

text \<open>
  The fallback at a concrete provider: the batch and the text \<open>bad\<close> fail, \<open>good\<close> succeeds.
\<close>

theorem embed_fallback_zero_768_witness:
  "fst (flaky_client ''nomic-embed-text'' (truncated [''good'', ''bad'']) (provider fresh_world))
     = Inl (Exception ''context length exceeded'')
   \<and> length [''good'', ''bad''] \<noteq> 1
   \<and> (\<exists>vs w' singles.
         embed flaky_client ''nomic-embed-text'' [''good'', ''bad''] fresh_world = (Inr vs, w')
       \<and> calls w' = calls fresh_world
            @ \<lparr>call_model = ''nomic-embed-text'', call_input = truncated [''good'', ''bad''],
               call_response = Inl (Exception ''context length exceeded'')\<rparr> # singles
       \<and> map call_input singles = map (\<lambda>t. [t]) (truncated [''good'', ''bad''])
       \<and> vs = map (\<lambda>c. case call_response c of Inr (item # _) \<Rightarrow> item
                                                 | _ \<Rightarrow> replicate 768 0) singles
       \<and> length vs = length [''good'', ''bad''])"
proof -
  have h1: "fst (flaky_client ''nomic-embed-text'' (truncated [''good'', ''bad''])
                  (provider fresh_world)) = Inl (Exception ''context length exceeded'')"
    by (simp add: flaky_client_def truncated_def)
  have h2: "length [''good'', ''bad''] \<noteq> 1"
    by simp
  from embed_fallback_zero_768 [of flaky_client "''nomic-embed-text''" "[''good'', ''bad'']"
      fresh_world "Exception ''context length exceeded''", OF h1 h2] h1 h2
  show ?thesis by blast
qed

text \<open>
  Claim C1 as stated asks for a zero vector of the dimensionality of the model in use. An
  embedder constructed for mxbai-embed-large, whose provider answers with vectors of 1024
  entries, gets a placeholder of 768 entries next to a real vector of 1024.
\<close>

theorem embed_zero_vector_counterexample:
  "fst (embed wide_client ''mxbai-embed-large'' [''a'', ''b''] fresh_world)
     = Inr [replicate 768 0, replicate 1024 1]
   \<and> length (replicate 768 (0::real)) \<noteq> length (replicate 1024 (1::real))"
  by (simp add: embed_def create_def wide_client_def fresh_world_def truncated_def
      truncate_text_def MAX_CHARS_def print_def zero_vector_def)



text \<open>
  Claim C6. Every request that \<open>embed\<close> issues carries truncated texts only: the batch request
  carries the truncated list, and each fallback request one truncated text. A text longer
  than 6000 characters is delivered as its first 6000 characters; a text of at most 6000
  characters, the empty text included, is delivered unchanged.
\<close>

theorem embed_delivers_truncated:
  "\<exists>cs. calls (snd (embed cl m texts w)) = calls w @ cs
      \<and> (map call_input cs = [truncated texts]
         \<or> map call_input cs = truncated texts # map (\<lambda>t. [t]) (truncated texts))
      \<and> length (truncated texts) = length texts
      \<and> (\<forall>i < length texts.
            (6000 < length (texts ! i) \<longrightarrow>
               truncated texts ! i = take 6000 (texts ! i) \<and> length (truncated texts ! i) = 6000)
          \<and> (length (texts ! i) \<le> 6000 \<longrightarrow> truncated texts ! i = texts ! i))"
proof -
  have tr: "(6000 < length (texts ! i) \<longrightarrow>
               truncated texts ! i = take 6000 (texts ! i) \<and> length (truncated texts ! i) = 6000)
          \<and> (length (texts ! i) \<le> 6000 \<longrightarrow> truncated texts ! i = texts ! i)"
    if "i < length texts" for i
    using that by (auto simp: truncated_def truncate_text_def MAX_CHARS_def)
  have "\<exists>cs. calls (snd (embed cl m texts w)) = calls w @ cs
      \<and> (map call_input cs = [truncated texts]
         \<or> map call_input cs = truncated texts # map (\<lambda>t. [t]) (truncated texts))"
  proof (cases "fst (cl m (truncated texts) (provider w))")
    case (Inr d)
    from embed_batch_ok [of cl m texts w d] Inr show ?thesis by simp
  next
    case (Inl e)
    show ?thesis
    proof (cases "length texts = 1")
      case True
      with embed_single_fail [of cl m texts w e] Inl show ?thesis by simp
    next
      case False
      from embed_fallback [of cl m texts w e] Inl False show ?thesis by auto
    qed
  qed
  with tr show ?thesis by auto
qed

text \<open>
  Claim C7. For a list of exactly one text whose batch request fails, \<open>embed\<close> raises the very
  exception of the provider. It has issued that one request and no other, printed nothing,
  and built no zero vector.
\<close>

theorem embed_single_failure_propagates:
  assumes "fst (cl m (truncated [t]) (provider w)) = Inl e"
  shows "fst (embed cl m [t] w) = Inl e
       \<and> calls (snd (embed cl m [t] w))
           = calls w @ [\<lparr>call_model = m, call_input = [truncate_text t], call_response = Inl e\<rparr>]
       \<and> printed (snd (embed cl m [t] w)) = printed w"
  using embed_single_fail [of cl m "[t]" w e] assms by (simp add: truncated_def)


text \<open>
  A text of 6001 characters is cut to 6000, the short text beside it is untouched.
\<close>

theorem embed_delivers_truncated_witness:
  "length (truncated [replicate 6001 CHR ''x'', ''ok''] ! 0) = 6000
   \<and> truncated [replicate 6001 CHR ''x'', ''ok''] ! 0 = take 6000 (replicate 6001 CHR ''x'')
   \<and> truncated [replicate 6001 CHR ''x'', ''ok''] ! 1 = ''ok''"
proof -
  let ?T = "[replicate 6001 CHR ''x'', ''ok'']"
  from embed_delivers_truncated [of echo_client "''nomic-embed-text''" ?T fresh_world]
  have a: "\<forall>i < length ?T.
            (6000 < length (?T ! i) \<longrightarrow>
               truncated ?T ! i = take 6000 (?T ! i) \<and> length (truncated ?T ! i) = 6000)
          \<and> (length (?T ! i) \<le> 6000 \<longrightarrow> truncated ?T ! i = ?T ! i)"
    by blast
  have "0 < length ?T" "6000 < length (?T ! 0)" "1 < length ?T" "length (?T ! 1) \<le> 6000"
    by simp_all
  with a show ?thesis by (metis nth_Cons_0 One_nat_def nth_Cons_Suc)
qed

text \<open>
  The single text \<open>bad\<close> at the provider that rejects it.
\<close>

theorem embed_single_failure_propagates_witness:
  "fst (flaky_client ''nomic-embed-text'' (truncated [''bad'']) (provider fresh_world))
     = Inl (Exception ''context length exceeded'')
   \<and> fst (embed flaky_client ''nomic-embed-text'' [''bad''] fresh_world)
       = Inl (Exception ''context length exceeded'')
   \<and> calls (snd (embed flaky_client ''nomic-embed-text'' [''bad''] fresh_world))
       = calls fresh_world
           @ [\<lparr>call_model = ''nomic-embed-text'', call_input = [truncate_text ''bad''],
                call_response = Inl (Exception ''context length exceeded'')\<rparr>]
   \<and> printed (snd (embed flaky_client ''nomic-embed-text'' [''bad''] fresh_world))
       = printed fresh_world"
proof -
  have h: "fst (flaky_client ''nomic-embed-text'' (truncated [''bad'']) (provider fresh_world))
             = Inl (Exception ''context length exceeded'')"
    by (simp add: flaky_client_def truncated_def truncate_text_def MAX_CHARS_def)
  from embed_single_failure_propagates [of flaky_client "''nomic-embed-text''" "''bad''"
      fresh_world "Exception ''context length exceeded''", OF h] h
  show ?thesis by blast
qed

subsection \<open>The batch pipeline\<close>

text \<open>
  Reading a trace distributes over concatenation.
\<close>

lemma engine_batches_append [simp]:
  "engine_batches (xs @ ys) = engine_batches xs @ engine_batches ys"
  by (induction xs rule: engine_batches.induct) simp_all

lemma engine_stats_append [simp]:
  "engine_stats (xs @ ys) = engine_stats xs @ engine_stats ys"
  by (induction xs rule: engine_stats.induct) simp_all



lemma ceil_zero: "0 < N \<Longrightarrow> (N - 1) div N = (0::nat)"
  by simp





lemma engine_batches_banner [simp]:
  "engine_batches (cli_banner a env d) = []" "engine_stats (cli_banner a env d) = []"
  by (simp_all add: cli_banner_def split: prod.splits)

lemma engine_batches_summary [simp]:
  "engine_batches (summary_lines te tr sid) = []" "engine_stats (summary_lines te tr sid) = []"
  by (simp_all add: summary_lines_def)
















subsection \<open>The tool facade\<close>



lemma engine_queries_append [simp]:
  "engine_queries (xs @ ys) = engine_queries xs @ engine_queries ys"
  by (induction xs rule: engine_queries.induct) simp_all














end
